theory Spec2Isabelle
  imports Main "HOL-Library.Word" "HOL-Library.Sublist"
begin

unbundle bit_operations_syntax

section \<open>The REST wrapper of a database handler\<close>

text \<open>
  This theory embeds \<^verbatim>\<open>mindsdb/integrations/handlers_wrapper/db_handler_wrapper.py\<close>:
  the classes \<^verbatim>\<open>BaseDBWrapper\<close> and \<^verbatim>\<open>DBHandlerWrapper\<close>, their route table and their
  seven dispatch operations.

  Conventions of the embedding.
  \<^item> A Python \<^verbatim>\<open>str\<close> is a \<open>string\<close> holding its UTF-8 bytes, so that
    \<^verbatim>\<open>s.encode("utf-8")\<close> reads the same bytes as 8-bit words. A \<^verbatim>\<open>str\<close> with a lone
    surrogate has no such form and is outside the model.
  \<^item> A Python \<^verbatim>\<open>bytes\<close> value is a list of 8-bit words.
  \<^item> A raised exception is the left injection of a sum; \<^verbatim>\<open>try\<close>/\<^verbatim>\<open>except Exception\<close> is a
    case distinction on it.
  \<^item> Every call that leaves the wrapper (the request object, the JSON, base64 and pickle
    libraries, the handler registry, the handler's constructor and its capabilities) is
    recorded as an event, in the order in which the interpreter makes the calls. The
    calls of the logger are left out: no argument of a logging call has an effect, apart
    from the \<^verbatim>\<open>request.get_data()\<close> of the debug message in \<^verbatim>\<open>query\<close>, which is recorded.
\<close>

subsection \<open>Values\<close>

type_synonym byte = "8 word"

text \<open>What \<^verbatim>\<open>json.loads\<close> returns: \<^verbatim>\<open>None\<close>, a bool, a number, a string, a list or a dict.
  A dict is an association list read with \<open>map_of\<close>. Numbers are integers here.\<close>

datatype json =
    JNull
  | JBool bool
  | JNum int
  | JStr string
  | JArr "json list"
  | JObj "(string \<times> json) list"

text \<open>An exception: the name of its class as the traceback prints it, and \<^verbatim>\<open>str(e)\<close>.\<close>

datatype exn = Exn (exc_type: string) (exc_msg: string)

definition KeyError :: "string \<Rightarrow> exn" where
  "KeyError k = Exn ''KeyError'' ([CHR 0x27] @ k @ [CHR 0x27])"

definition TypeError :: "string \<Rightarrow> exn" where
  "TypeError m = Exn ''TypeError'' m"

definition AttributeError :: "string \<Rightarrow> exn" where
  "AttributeError m = Exn ''AttributeError'' m"

definition BinasciiError :: "string \<Rightarrow> exn" where
  "BinasciiError m = Exn ''binascii.Error'' m"

subsection \<open>The result envelope\<close>

text \<open>\<^verbatim>\<open>RESPONSE_TYPE\<close>, \<^verbatim>\<open>HandlerResponse\<close> and \<^verbatim>\<open>HandlerStatusResponse\<close> are imported from
  \<^verbatim>\<open>mindsdb.integrations.libs.response\<close>, which is not among the sources.\<close>

text \<open>Modelled from the spec: the type tag of a Query Response, one of TABLE, OK, ERROR.\<close>

datatype RESPONSE_TYPE = TABLE | OK | ERROR

text \<open>Modelled from the spec: the Status Response
  \<^verbatim>\<open>{ success: bool, error_message: string|null }\<close>.\<close>

record StatusResponse =
  success :: bool
  status_error_message :: "string option"

text \<open>Modelled from the spec: the Query Response
  \<^verbatim>\<open>{ type, error_code: int|null, error_message: string|null, result_set: tabular-data|null }\<close>,
  tabular data being a sequence of rows, each a mapping from column name to scalar.\<close>

record Response =
  resp_type :: RESPONSE_TYPE
  error_code :: "int option"
  error_message :: "string option"
  result_set :: "(string \<times> json) list list option"

definition opt_str :: "string option \<Rightarrow> json" where
  "opt_str m = (case m of None \<Rightarrow> JNull | Some s \<Rightarrow> JStr s)"

definition opt_int :: "int option \<Rightarrow> json" where
  "opt_int m = (case m of None \<Rightarrow> JNull | Some i \<Rightarrow> JNum i)"

definition type_name :: "RESPONSE_TYPE \<Rightarrow> string" where
  "type_name t = (case t of TABLE \<Rightarrow> ''table'' | OK \<Rightarrow> ''ok'' | ERROR \<Rightarrow> ''error'')"

text \<open>Modelled from the spec: \<^verbatim>\<open>HandlerStatusResponse.to_json\<close>, the JSON body of a Status
  Response, one field of the body for each field of the response.\<close>

definition status_to_json :: "StatusResponse \<Rightarrow> json" where
  "status_to_json r =
     JObj [(''success'', JBool (success r)),
           (''error_message'', opt_str (status_error_message r))]"

text \<open>Modelled from the spec: \<^verbatim>\<open>HandlerResponse.to_json\<close>, the JSON body of a Query
  Response, one field of the body for each field of the response.\<close>

definition to_json :: "Response \<Rightarrow> json" where
  "to_json r =
     JObj [(''type'', JStr (type_name (resp_type r))),
           (''error_code'', opt_int (error_code r)),
           (''error_message'', opt_str (error_message r)),
           (''result_set'',
              (case result_set r of None \<Rightarrow> JNull
               | Some rows \<Rightarrow> JArr (map JObj rows)))]"

text \<open>The two constructor calls of the source:
  \<^verbatim>\<open>StatusResponse(success=False, error_message=msg)\<close> and
  \<^verbatim>\<open>Response(resp_type=RESPONSE_TYPE.ERROR, error_code=1, error_message=msg)\<close>.\<close>

definition failed_status :: "string \<Rightarrow> StatusResponse" where
  "failed_status msg = \<lparr>success = False, status_error_message = Some msg\<rparr>"

definition error_response :: "string \<Rightarrow> Response" where
  "error_response msg =
     \<lparr>resp_type = ERROR, error_code = Some 1, error_message = Some msg, result_set = None\<rparr>"

subsection \<open>Handlers and the environment of the wrapper\<close>

text \<open>The capability set of a handler instance. A capability returns its result or raises.
  \<^verbatim>\<open>native_query\<close> and \<^verbatim>\<open>get_columns\<close> receive whatever value the request carried.\<close>

record 'q handler =
  h_connect :: "exn + unit"
  h_disconnect :: "exn + unit"
  h_check_connection :: "exn + StatusResponse"
  h_native_query :: "json \<Rightarrow> exn + Response"
  h_query :: "'q \<Rightarrow> exn + Response"
  h_get_tables :: "exn + Response"
  h_get_columns :: "json \<Rightarrow> exn + Response"

text \<open>A handler class is called with keyword arguments and returns an instance or raises.\<close>

type_synonym 'q handler_class = "(string \<times> json) list \<Rightarrow> exn + 'q handler"

text \<open>The libraries and collaborators the wrapper calls, taken as parameters:
  \<^verbatim>\<open>json.loads\<close>, \<^verbatim>\<open>pickle.loads\<close>, the table of registered handler classes, and the stack
  listing that \<^verbatim>\<open>traceback.format_exc\<close> prints for an exception. \<^verbatim>\<open>json.dumps\<close>,
  \<^verbatim>\<open>pickle.dumps\<close> and the equality of query objects are used by the caller's side of the
  codec only.\<close>

record 'q env =
  json_loads :: "byte list \<Rightarrow> exn + json"
  json_dumps :: "json \<Rightarrow> byte list"
  pickle_loads :: "byte list \<Rightarrow> exn + 'q"
  pickle_dumps :: "'q \<Rightarrow> exn + byte list"
  obj_eq :: "'q \<Rightarrow> 'q \<Rightarrow> bool"
  registry :: "string \<rightharpoonup> 'q handler_class"
  tb_frames :: "exn \<Rightarrow> string"

text \<open>A request, as the operations read it: \<^verbatim>\<open>request.get_data()\<close> is the raw body,
  \<^verbatim>\<open>request.json\<close> is what evaluating that property gives: the parsed body, \<^verbatim>\<open>None\<close>
  (\<open>JNull\<close>), or an exception of the framework when the body cannot be parsed.\<close>

record request =
  req_data :: "byte list"
  req_json :: "exn + json"

subsection \<open>Python operations on values\<close>

text \<open>\<^verbatim>\<open>v[key]\<close>: a dict gives the value or raises \<^verbatim>\<open>KeyError\<close>; every other JSON value
  raises \<^verbatim>\<open>TypeError\<close> for a string key.\<close>

definition getitem :: "json \<Rightarrow> string \<Rightarrow> exn + json" where
  "getitem v key =
     (case v of
        JObj kvs \<Rightarrow> (case map_of kvs key of None \<Rightarrow> Inl (KeyError key) | Some x \<Rightarrow> Inr x)
      | JArr _ \<Rightarrow> Inl (TypeError ''list indices must be integers or slices, not str'')
      | JStr _ \<Rightarrow> Inl (TypeError ''string indices must be integers'')
      | _ \<Rightarrow> Inl (TypeError ''object is not subscriptable''))"

text \<open>\<^verbatim>\<open>v.get(key)\<close>: a dict gives the value, or \<^verbatim>\<open>None\<close> for an absent key; no other JSON
  value has the attribute.\<close>

definition dict_get :: "json \<Rightarrow> string \<Rightarrow> exn + json" where
  "dict_get v key =
     (case v of
        JObj kvs \<Rightarrow> (case map_of kvs key of None \<Rightarrow> Inr JNull | Some x \<Rightarrow> Inr x)
      | _ \<Rightarrow> Inl (AttributeError ''object has no attribute 'get' ''))"

text \<open>\<^verbatim>\<open>v.encode("utf-8")\<close>: only a \<^verbatim>\<open>str\<close> has the method.\<close>

definition encode_utf8 :: "json \<Rightarrow> exn + byte list" where
  "encode_utf8 v =
     (case v of
        JStr s \<Rightarrow> Inr (map of_char s)
      | _ \<Rightarrow> Inl (AttributeError ''object has no attribute 'encode' ''))"

text \<open>\<^verbatim>\<open>f(**v)\<close>: the argument after \<^verbatim>\<open>**\<close> must be a mapping.\<close>

definition kwargs :: "json \<Rightarrow> exn + (string \<times> json) list" where
  "kwargs v =
     (case v of
        JObj kvs \<Rightarrow> Inr kvs
      | _ \<Rightarrow> Inl (TypeError ''argument after ** must be a mapping''))"

text \<open>\<^verbatim>\<open>traceback.format_exc()\<close> inside an \<^verbatim>\<open>except\<close> block: the header, the stack listing,
  and the line of the exception (its class, and its message when it has one).\<close>

definition exc_line :: "exn \<Rightarrow> string" where
  "exc_line e =
     (if exc_msg e = [] then exc_type e else exc_type e @ '': '' @ exc_msg e) @ [CHR 0x0A]"

definition format_exc :: "'q env \<Rightarrow> exn \<Rightarrow> string" where
  "format_exc env e =
     ''Traceback (most recent call last):'' @ [CHR 0x0A] @ tb_frames env e @ exc_line e"

subsection \<open>Base64\<close>

text \<open>\<^verbatim>\<open>base64.b64decode(s)\<close> with its default \<^verbatim>\<open>validate=False\<close> is
  \<^verbatim>\<open>binascii.a2b_base64(s)\<close> in its non-strict mode: a loop over the input with the position
  in the current group of four (\<open>quad_pos\<close>), the bits left over from the previous character
  (\<open>leftchar\<close>) and the number of padding characters seen (\<open>pads\<close>). Characters outside the
  alphabet are skipped; enough padding ends the input; an incomplete group at the end of the
  input raises \<^verbatim>\<open>binascii.Error\<close>.\<close>

definition BASE64_PAD :: byte where
  "BASE64_PAD = 0x3D"

definition table_b2a_base64 :: string where
  "table_b2a_base64 =
     ''ABCDEFGHIJKLMNOPQRSTUVWXYZabcdefghijklmnopqrstuvwxyz0123456789+/''"

definition table_a2b_base64 :: "byte \<Rightarrow> byte" where
  "table_a2b_base64 c =
     (if 0x41 \<le> c \<and> c \<le> 0x5A then c - 0x41
      else if 0x61 \<le> c \<and> c \<le> 0x7A then c - 0x61 + 26
      else if 0x30 \<le> c \<and> c \<le> 0x39 then c - 0x30 + 52
      else if c = 0x2B then 62
      else if c = 0x2F then 63
      else 0xFF)"

fun a2b_loop :: "byte list \<Rightarrow> nat \<Rightarrow> byte \<Rightarrow> nat \<Rightarrow> byte list \<Rightarrow> exn + byte list" where
  "a2b_loop [] quad_pos leftchar pads bin_data =
     (if quad_pos \<noteq> 0 then
        (if quad_pos = 1
         then Inl (BinasciiError ''Invalid base64-encoded string: number of data characters cannot be 1 more than a multiple of 4'')
         else Inl (BinasciiError ''Incorrect padding''))
      else Inr bin_data)"
| "a2b_loop (c # rest) quad_pos leftchar pads bin_data =
     (if c = BASE64_PAD then
        (if 2 \<le> quad_pos \<and> 4 \<le> quad_pos + (pads + 1) then Inr bin_data
         else a2b_loop rest quad_pos leftchar (if 2 \<le> quad_pos then pads + 1 else pads) bin_data)
      else
        (let this_ch = table_a2b_base64 c in
         if 64 \<le> this_ch then a2b_loop rest quad_pos leftchar pads bin_data
         else if quad_pos = 0 then a2b_loop rest 1 this_ch 0 bin_data
         else if quad_pos = 1 then
           a2b_loop rest 2 (this_ch AND 0x0F) 0
             (bin_data @ [push_bit 2 leftchar OR drop_bit 4 this_ch])
         else if quad_pos = 2 then
           a2b_loop rest 3 (this_ch AND 0x03) 0
             (bin_data @ [push_bit 4 leftchar OR drop_bit 2 this_ch])
         else
           a2b_loop rest 0 0 0 (bin_data @ [push_bit 6 leftchar OR this_ch])))"

definition b64decode :: "byte list \<Rightarrow> exn + byte list" where
  "b64decode s = a2b_loop s 0 0 0 []"

subsection \<open>Steps, events and exceptions\<close>

datatype 'q capability =
    CapConnect
  | CapDisconnect
  | CapCheckConnection
  | CapNativeQuery json
  | CapQuery 'q
  | CapGetTables
  | CapGetColumns json

text \<open>One event for each step of an operation that can raise or that leaves the wrapper,
  recorded when the step starts.\<close>

datatype 'q event =
    GetData
  | RequestJson
  | JsonLoads
  | GetItem string
  | DictGet string
  | EncodeUtf8
  | B64Decode
  | PickleLoads
  | RegistryLookup json
  | Construct json
  | Invoke "'q capability"

text \<open>A computation is its result or exception, with the events it recorded.\<close>

type_synonym ('q, 'a) comp = "(exn + 'a) \<times> 'q event list"

definition step :: "'q event \<Rightarrow> exn + 'a \<Rightarrow> ('q, 'a) comp" where
  "step ev r = (r, [ev])"

definition ret :: "'a \<Rightarrow> ('q, 'a) comp" where
  "ret a = (Inr a, [])"

text \<open>Sequencing: an exception of the first computation skips the second.\<close>

definition then_do :: "('q, 'a) comp \<Rightarrow> ('a \<Rightarrow> ('q, 'b) comp) \<Rightarrow> ('q, 'b) comp" where
  "then_do m f =
     (case m of
        (Inl e, t) \<Rightarrow> (Inl e, t)
      | (Inr a, t) \<Rightarrow> (case f a of (r, t') \<Rightarrow> (r, t @ t')))"

text \<open>What an operation gives to the framework: the pair of a body and a status code that
  it returns, or an exception that it did not catch.\<close>

datatype outcome = Returned json nat | Propagated exn

text \<open>\<^verbatim>\<open>try: ... return body, code  except Exception: ... return handler(e)\<close>.\<close>

definition try_except ::
  "('q, json \<times> nat) comp \<Rightarrow> (exn \<Rightarrow> json \<times> nat) \<Rightarrow> outcome \<times> 'q event list" where
  "try_except m h =
     (case m of
        (Inl e, t) \<Rightarrow> (case h e of (body, code) \<Rightarrow> (Returned body code, t))
      | (Inr (body, code), t) \<Rightarrow> (Returned body code, t))"

text \<open>Statements outside every \<^verbatim>\<open>try\<close> block, followed by the rest of the operation: an
  exception of theirs leaves the operation.\<close>

definition unguarded ::
  "('q, 'a) comp \<Rightarrow> ('a \<Rightarrow> outcome \<times> 'q event list) \<Rightarrow> outcome \<times> 'q event list" where
  "unguarded m k =
     (case m of
        (Inl e, t) \<Rightarrow> (Propagated e, t)
      | (Inr a, t) \<Rightarrow> (case k a of (out, t') \<Rightarrow> (out, t @ t')))"

subsection \<open>The handler resolver\<close>

definition UnknownBackendType :: "string \<Rightarrow> exn" where
  "UnknownBackendType ty = Exn ''UnknownBackendType'' ty"

text \<open>Modelled from the spec: \<^verbatim>\<open>get_handler\<close> of \<^verbatim>\<open>mindsdb.integrations.libs.handler_helpers\<close>,
  the external registry, which is not among the sources. It looks the backend-type tag up
  and fails with \<^verbatim>\<open>UnknownBackendType\<close> when the tag is unregistered; a tag that is not a
  string is not registered.\<close>

definition handler_helpers_get_handler :: "'q env \<Rightarrow> json \<Rightarrow> exn + 'q handler_class" where
  "handler_helpers_get_handler env tag =
     (case tag of
        JStr ty \<Rightarrow>
          (case registry env ty of
             None \<Rightarrow> Inl (UnknownBackendType ty)
           | Some handler_class \<Rightarrow> Inr handler_class)
      | _ \<Rightarrow> Inl (UnknownBackendType []))"

text \<open>\<^verbatim>\<open>BaseDBWrapper.get_handler\<close>.\<close>

definition get_handler :: "'q env \<Rightarrow> json \<Rightarrow> ('q, 'q handler) comp" where
  "get_handler env json_dict =
     then_do (step (GetItem ''handler_type'') (getitem json_dict ''handler_type'')) (\<lambda>tag.
     then_do (step (RegistryLookup tag) (handler_helpers_get_handler env tag)) (\<lambda>handler_class.
     then_do (step (GetItem ''handler_kwargs'') (getitem json_dict ''handler_kwargs'')) (\<lambda>kw.
     step (Construct kw)
       (case kwargs kw of Inl e \<Rightarrow> Inl e | Inr kvs \<Rightarrow> handler_class kvs))))"

subsection \<open>The dispatch operations\<close>

text \<open>\<^verbatim>\<open>DBHandlerWrapper.connect\<close> and \<^verbatim>\<open>DBHandlerWrapper.disconnect\<close>.\<close>

definition status_ok :: "json \<times> nat" where
  "status_ok = (JObj [(''status'', JStr ''OK'')], 200)"

definition status_fail :: "string \<Rightarrow> json \<times> nat" where
  "status_fail msg = (JObj [(''status'', JStr ''FAIL''), (''error'', JStr msg)], 500)"

definition connect :: "'q env \<Rightarrow> request \<Rightarrow> outcome \<times> 'q event list" where
  "connect env req =
     try_except
       (then_do (step RequestJson (req_json req)) (\<lambda>j.
        then_do (get_handler env j) (\<lambda>handler.
        then_do (step (Invoke CapConnect) (h_connect handler)) (\<lambda>_.
        ret status_ok))))
       (\<lambda>e. status_fail (format_exc env e))"

definition disconnect :: "'q env \<Rightarrow> request \<Rightarrow> outcome \<times> 'q event list" where
  "disconnect env req =
     try_except
       (then_do (step RequestJson (req_json req)) (\<lambda>j.
        then_do (get_handler env j) (\<lambda>handler.
        then_do (step (Invoke CapDisconnect) (h_disconnect handler)) (\<lambda>_.
        ret status_ok))))
       (\<lambda>e. status_fail (format_exc env e))"

text \<open>\<^verbatim>\<open>DBHandlerWrapper.check_connection\<close>.\<close>

definition check_connection :: "'q env \<Rightarrow> request \<Rightarrow> outcome \<times> 'q event list" where
  "check_connection env req =
     try_except
       (then_do (step RequestJson (req_json req)) (\<lambda>j.
        then_do (get_handler env j) (\<lambda>handler.
        then_do (step (Invoke CapCheckConnection) (h_check_connection handler)) (\<lambda>result.
        ret (status_to_json result, 200)))))
       (\<lambda>e. (status_to_json (failed_status (format_exc env e)), 500))"

text \<open>\<^verbatim>\<open>DBHandlerWrapper.native_query\<close>: the query is read from the request before the
  \<^verbatim>\<open>try\<close> block is entered.\<close>

definition native_query :: "'q env \<Rightarrow> request \<Rightarrow> outcome \<times> 'q event list" where
  "native_query env req =
     unguarded
       (then_do (step RequestJson (req_json req)) (\<lambda>j.
        step (DictGet ''query'') (dict_get j ''query'')))
       (\<lambda>query.
          try_except
            (then_do (step RequestJson (req_json req)) (\<lambda>j.
             then_do (get_handler env j) (\<lambda>handler.
             then_do (step (Invoke (CapNativeQuery query)) (h_native_query handler query)) (\<lambda>result.
             ret (to_json result, 200)))))
            (\<lambda>e. (to_json (error_response (format_exc env e)), 500)))"

text \<open>\<^verbatim>\<open>DBHandlerWrapper.query\<close>. The first \<^verbatim>\<open>try\<close> block decodes the query object and
  returns on an exception; the second resolves the handler from the JSON the first one
  parsed, and runs the query.\<close>

definition decode_query :: "'q env \<Rightarrow> request \<Rightarrow> ('q, json \<times> 'q) comp" where
  "decode_query env req =
     then_do (step GetData (Inr (req_data req))) (\<lambda>json_bytes.
     then_do (step JsonLoads (json_loads env json_bytes)) (\<lambda>json_dict.
     then_do (step (GetItem ''query'') (getitem json_dict ''query'')) (\<lambda>q.
     then_do (step EncodeUtf8 (encode_utf8 q)) (\<lambda>b64_query_bytes.
     then_do (step B64Decode (b64decode b64_query_bytes)) (\<lambda>s_query.
     then_do (step PickleLoads (pickle_loads env s_query)) (\<lambda>query.
     ret (json_dict, query)))))))"

definition query :: "'q env \<Rightarrow> request \<Rightarrow> outcome \<times> 'q event list" where
  "query env req =
     unguarded (step GetData (Inr (req_data req))) (\<lambda>_.
       (case decode_query env req of
          (Inl e, t) \<Rightarrow> (Returned (to_json (error_response (format_exc env e))) 500, t)
        | (Inr (json_dict, query), t) \<Rightarrow>
            (case try_except
                    (then_do (get_handler env json_dict) (\<lambda>handler.
                     then_do (step (Invoke (CapQuery query)) (h_query handler query)) (\<lambda>result.
                     ret (to_json result, 200))))
                    (\<lambda>e. (to_json (error_response (format_exc env e)), 500))
             of (out, t') \<Rightarrow> (out, t @ t'))))"

text \<open>\<^verbatim>\<open>DBHandlerWrapper.get_tables\<close>.\<close>

definition get_tables :: "'q env \<Rightarrow> request \<Rightarrow> outcome \<times> 'q event list" where
  "get_tables env req =
     try_except
       (then_do (step RequestJson (req_json req)) (\<lambda>j.
        then_do (get_handler env j) (\<lambda>handler.
        then_do (step (Invoke CapGetTables) (h_get_tables handler)) (\<lambda>result.
        ret (to_json result, 200)))))
       (\<lambda>e. (to_json (error_response (format_exc env e)), 500))"

text \<open>\<^verbatim>\<open>DBHandlerWrapper.get_columns\<close>: the table name is read inside the \<^verbatim>\<open>try\<close> block.\<close>

definition get_columns :: "'q env \<Rightarrow> request \<Rightarrow> outcome \<times> 'q event list" where
  "get_columns env req =
     try_except
       (then_do (step RequestJson (req_json req)) (\<lambda>j.
        then_do (step (DictGet ''table'') (dict_get j ''table'')) (\<lambda>table.
        then_do (step RequestJson (req_json req)) (\<lambda>j'.
        then_do (get_handler env j') (\<lambda>handler.
        then_do (step (Invoke (CapGetColumns table)) (h_get_columns handler table)) (\<lambda>result.
        ret (to_json result, 200)))))))
       (\<lambda>e. (to_json (error_response (format_exc env e)), 500))"

subsection \<open>The route table\<close>

datatype http_method = GET | POST | PUT

datatype endpoint =
    Index
  | Connect
  | Disconnect
  | CheckConnection
  | GetTables
  | GetColumns
  | NativeQuery
  | Query

record url_rule =
  rule :: string
  methods :: "http_method list"
  endpoint :: endpoint

text \<open>\<^verbatim>\<open>self.app.route(rule, methods=...)(f)\<close> adds a rule for the view function \<open>f\<close> at the
  end of the application's URL map; without \<^verbatim>\<open>methods\<close> the rule answers GET.\<close>

definition route :: "string \<Rightarrow> http_method list \<Rightarrow> endpoint \<Rightarrow> url_rule list \<Rightarrow> url_rule list" where
  "route r ms f url_map = url_map @ [\<lparr>rule = r, methods = ms, endpoint = f\<rparr>]"

text \<open>\<^verbatim>\<open>BaseDBWrapper.__init__\<close> and \<^verbatim>\<open>DBHandlerWrapper.__init__\<close>, the latter after
  \<^verbatim>\<open>super().__init__\<close>.\<close>

definition BaseDBWrapper_init :: "url_rule list" where
  "BaseDBWrapper_init = route ''/'' [GET] Index []"

definition DBHandlerWrapper_init :: "url_rule list" where
  "DBHandlerWrapper_init =
     (route ''/query'' [GET] Query
     (route ''/native_query'' [POST, PUT] NativeQuery
     (route ''/get_columns'' [GET] GetColumns
     (route ''/get_tables'' [GET] GetTables
     (route ''/check_connection'' [GET] CheckConnection
     (route ''/connect'' [GET] Disconnect
     (route ''/connect'' [GET] Connect
      BaseDBWrapper_init)))))))"

text \<open>The rules a request matches, in the order of the URL map; the framework dispatches
  a request to the first of them.\<close>

definition matching :: "url_rule list \<Rightarrow> http_method \<Rightarrow> string \<Rightarrow> endpoint list" where
  "matching url_map m path =
     map endpoint (filter (\<lambda>r. rule r = path \<and> m \<in> set (methods r)) url_map)"

definition dispatch :: "url_rule list \<Rightarrow> http_method \<Rightarrow> string \<Rightarrow> endpoint option" where
  "dispatch url_map m path =
     (case matching url_map m path of [] \<Rightarrow> None | f # _ \<Rightarrow> Some f)"

text \<open>\<^verbatim>\<open>BaseDBWrapper.index\<close>, and the view function that the URL map binds to each endpoint.\<close>

definition index :: "outcome \<times> 'q event list" where
  "index = (Returned (JStr ''A DB Service Wrapper'') 200, [])"

definition view_function :: "endpoint \<Rightarrow> 'q env \<Rightarrow> request \<Rightarrow> outcome \<times> 'q event list" where
  "view_function f env req =
     (case f of
        Index \<Rightarrow> index
      | Connect \<Rightarrow> connect env req
      | Disconnect \<Rightarrow> disconnect env req
      | CheckConnection \<Rightarrow> check_connection env req
      | GetTables \<Rightarrow> get_tables env req
      | GetColumns \<Rightarrow> get_columns env req
      | NativeQuery \<Rightarrow> native_query env req
      | Query \<Rightarrow> query env req)"

subsection \<open>Reading requests, responses and traces\<close>



definition is_invoke :: "'q event \<Rightarrow> bool" where
  "is_invoke ev = (case ev of Invoke _ \<Rightarrow> True | _ \<Rightarrow> False)"





text \<open>The steps of \<^verbatim>\<open>query\<close> in the order of the source, with the handler type, the
  keyword arguments and the query object they carry; the events of a handler resolution.\<close>

definition query_steps :: "json \<Rightarrow> json \<Rightarrow> 'q \<Rightarrow> 'q event list" where
  "query_steps tag kw q =
     [GetData, GetData, JsonLoads, GetItem ''query'', EncodeUtf8, B64Decode, PickleLoads,
      GetItem ''handler_type'', RegistryLookup tag, GetItem ''handler_kwargs'', Construct kw,
      Invoke (CapQuery q)]"


subsection \<open>The caller's side of the query transport codec\<close>

text \<open>The encoder is part of the client of this service, which is not among the sources.\<close>

definition b2a :: "byte \<Rightarrow> byte" where
  "b2a s = of_char (table_b2a_base64 ! unat s)"

text \<open>Modelled from the spec: base64-encode the bytes. Three bytes give four characters of
  the alphabet; one or two bytes at the end give two or three characters and padding.\<close>

fun b64encode :: "byte list \<Rightarrow> byte list" where
  "b64encode [] = []"
| "b64encode [a] =
     [b2a (drop_bit 2 a), b2a (push_bit 4 (a AND 0x03)), BASE64_PAD, BASE64_PAD]"
| "b64encode [a, b] =
     [b2a (drop_bit 2 a), b2a (push_bit 4 (a AND 0x03) OR drop_bit 4 b),
      b2a (push_bit 2 (b AND 0x0F)), BASE64_PAD]"
| "b64encode (a # b # c # rest) =
     [b2a (drop_bit 2 a), b2a (push_bit 4 (a AND 0x03) OR drop_bit 4 b),
      b2a (push_bit 2 (b AND 0x0F) OR drop_bit 6 c), b2a (c AND 0x3F)] @ b64encode rest"

text \<open>\<^verbatim>\<open>bs.decode("utf-8")\<close> on bytes of the base64 alphabet.\<close>

definition decode_utf8 :: "byte list \<Rightarrow> string" where
  "decode_utf8 bs = map (\<lambda>b. char_of (unat b)) bs"

text \<open>Modelled from the spec: the encoding contract of the Query Transport Codec.
  Serialize the query object into its binary form, base64-encode the bytes into a UTF-8
  string, embed that string as the \<^verbatim>\<open>query\<close> field of a JSON object that also carries
  the Connection Descriptor.\<close>

definition encoded_body :: "string \<Rightarrow> (string \<times> json) list \<Rightarrow> byte list \<Rightarrow> json" where
  "encoded_body backend_type connection_params s_query =
     JObj [(''handler_type'', JStr backend_type),
           (''handler_kwargs'', JObj connection_params),
           (''query'', JStr (decode_utf8 (b64encode s_query)))]"


subsection \<open>Concrete requests and environments\<close>

text \<open>The exception of the framework for a body that is not JSON.\<close>

definition bad_request :: exn where
  "bad_request =
     Exn ''werkzeug.exceptions.BadRequest'' ''400 Bad Request: Failed to decode JSON object''"

text \<open>A stub handler: every capability succeeds, except that \<^verbatim>\<open>query\<close> raises for a
  query other than \<^verbatim>\<open>SELECT 1\<close>.\<close>

definition stub_table :: Response where
  "stub_table =
     \<lparr>resp_type = TABLE, error_code = Some 0, error_message = None,
      result_set = Some [[(''1'', JNum 1)]]\<rparr>"

definition stub_handler :: "string handler" where
  "stub_handler =
     \<lparr>h_connect = Inr (),
      h_disconnect = Inr (),
      h_check_connection = Inr \<lparr>success = True, status_error_message = None\<rparr>,
      h_native_query = (\<lambda>q. Inr stub_table),
      h_query = (\<lambda>q. if q = ''SELECT 1'' then Inr stub_table
                     else Inl (Exn ''Exception'' ''unknown table'')),
      h_get_tables = Inr stub_table,
      h_get_columns = (\<lambda>t. Inr stub_table)\<rparr>"

text \<open>Request bodies: a Connection Descriptor for the stub; the same with the encoded query
  \<^verbatim>\<open>SELECT 1\<close>; the same with a \<^verbatim>\<open>query\<close> field that is not base64; a descriptor of an
  unregistered backend type, without a \<^verbatim>\<open>query\<close> field, and with the encoded query
  \<^verbatim>\<open>SELECT 1\<close>.\<close>

definition stub_descriptor :: json where
  "stub_descriptor = JObj [(''handler_type'', JStr ''stub''), (''handler_kwargs'', JObj [])]"

definition select_1_body :: json where
  "select_1_body = encoded_body ''stub'' [] (map of_char ''SELECT 1'')"

definition select_1_bytes :: "byte list" where
  \<open>select_1_bytes = map of_char
     ''{"handler_type": "stub", "handler_kwargs": {}, "query": "U0VMRUNUIDE="}''\<close>

definition bad_base64_body :: json where
  "bad_base64_body =
     JObj [(''handler_type'', JStr ''stub''), (''handler_kwargs'', JObj []),
           (''query'', JStr ''a'')]"

definition bad_base64_bytes :: "byte list" where
  \<open>bad_base64_bytes = map of_char
     ''{"handler_type": "stub", "handler_kwargs": {}, "query": "a"}''\<close>

definition nosuch_descriptor :: json where
  "nosuch_descriptor =
     JObj [(''handler_type'', JStr ''nosuch''), (''handler_kwargs'', JObj [])]"

definition nosuch_bytes :: "byte list" where
  \<open>nosuch_bytes = map of_char ''{"handler_type": "nosuch", "handler_kwargs": {}}''\<close>

definition nosuch_select_1_body :: json where
  "nosuch_select_1_body = encoded_body ''nosuch'' [] (map of_char ''SELECT 1'')"

definition nosuch_select_1_bytes :: "byte list" where
  \<open>nosuch_select_1_bytes = map of_char
     ''{"handler_type": "nosuch", "handler_kwargs": {}, "query": "U0VMRUNUIDE="}''\<close>

text \<open>The stack listing of a \<^verbatim>\<open>KeyError\<close> raised by \<^verbatim>\<open>_json["query"]\<close> in \<^verbatim>\<open>query\<close>.\<close>

definition query_line_214 :: string where
  \<open>query_line_214 =
     ''  File "mindsdb/integrations/handlers_wrapper/db_handler_wrapper.py", line 214, in query''
     @ [CHR 0x0A] @
     ''    b64_query_bytes = _json["query"].encode("utf-8")'' @ [CHR 0x0A]\<close>

text \<open>An environment for these bodies. Its JSON library knows the four bodies above, its
  pickle writes a query (a string) as its characters, its registry holds the stub, and its
  traceback prints the stack listing of the \<^verbatim>\<open>KeyError\<close> above and none for other
  exceptions.\<close>

definition stub_env :: "string env" where
  "stub_env =
     \<lparr>json_loads = (\<lambda>bs. if bs = select_1_bytes then Inr select_1_body
                        else if bs = bad_base64_bytes then Inr bad_base64_body
                        else if bs = nosuch_bytes then Inr nosuch_descriptor
                        else if bs = nosuch_select_1_bytes then Inr nosuch_select_1_body
                        else Inl (Exn ''json.decoder.JSONDecodeError'' ''Expecting value'')),
      json_dumps = (\<lambda>j. if j = select_1_body then select_1_bytes else []),
      pickle_loads = (\<lambda>bs. Inr (decode_utf8 bs)),
      pickle_dumps = (\<lambda>q. Inr (map of_char q)),
      obj_eq = (=),
      registry = [''stub'' \<mapsto> (\<lambda>kw. Inr stub_handler)],
      tb_frames = (\<lambda>e. if e = KeyError ''query'' then query_line_214 else [])\<rparr>"

definition stub_request :: request where
  "stub_request = \<lparr>req_data = [], req_json = Inr stub_descriptor\<rparr>"

definition select_1_request :: request where
  "select_1_request = \<lparr>req_data = select_1_bytes, req_json = Inr select_1_body\<rparr>"




section \<open>Properties\<close>

subsection \<open>Steps of the operations\<close>

lemmas comp_defs = then_do_def step_def ret_def

lemma get_handler_Inr_iff:
  "get_handler env j = (Inr h, t) \<longleftrightarrow>
     (\<exists>tag cls kvs. getitem j ''handler_type'' = Inr tag
        \<and> handler_helpers_get_handler env tag = Inr cls
        \<and> getitem j ''handler_kwargs'' = Inr (JObj kvs)
        \<and> cls kvs = Inr h
        \<and> t = [GetItem ''handler_type'', RegistryLookup tag, GetItem ''handler_kwargs'',
               Construct (JObj kvs)])"
  by (auto simp: get_handler_def comp_defs kwargs_def split: sum.splits json.splits)

lemma get_handler_no_invoke: "filter is_invoke (snd (get_handler env j)) = []"
  by (auto simp: get_handler_def comp_defs is_invoke_def split: sum.splits)

lemma get_handler_stub:
  "get_handler stub_env stub_descriptor =
     (Inr stub_handler,
      [GetItem ''handler_type'', RegistryLookup (JStr ''stub''), GetItem ''handler_kwargs'',
       Construct (JObj [])])"
  by (simp add: get_handler_def comp_defs getitem_def kwargs_def handler_helpers_get_handler_def
      stub_env_def stub_descriptor_def)

lemma decode_query_Inr_iff:
  "decode_query env req = (Inr (j, q), t) \<longleftrightarrow>
     (\<exists>qv b s. json_loads env (req_data req) = Inr j
        \<and> getitem j ''query'' = Inr qv
        \<and> encode_utf8 qv = Inr b
        \<and> b64decode b = Inr s
        \<and> pickle_loads env s = Inr q
        \<and> t = [GetData, JsonLoads, GetItem ''query'', EncodeUtf8, B64Decode, PickleLoads])"
  by (auto simp: decode_query_def comp_defs split: sum.splits)

text \<open>The decoding of \<^verbatim>\<open>query\<close> raises exactly when one of its steps does: parsing the
  body, reading the \<^verbatim>\<open>query\<close> field, encoding it, decoding the base64, unpickling.\<close>

lemma decode_query_Inl_iff:
  "fst (decode_query env req) = Inl e \<longleftrightarrow>
     json_loads env (req_data req) = Inl e
   \<or> (\<exists>j. json_loads env (req_data req) = Inr j \<and>
        (getitem j ''query'' = Inl e
       \<or> (\<exists>qv. getitem j ''query'' = Inr qv \<and>
            (encode_utf8 qv = Inl e
           \<or> (\<exists>b. encode_utf8 qv = Inr b \<and>
                (b64decode b = Inl e
               \<or> (\<exists>s. b64decode b = Inr s \<and> pickle_loads env s = Inl e)))))))"
  by (auto simp: decode_query_def comp_defs split: sum.splits)

lemma decode_query_trace:
  "prefix (snd (decode_query env req))
     [GetData, JsonLoads, GetItem ''query'', EncodeUtf8, B64Decode, PickleLoads]"
  by (auto simp: decode_query_def comp_defs split: sum.splits)


subsection \<open>The route table\<close>

lemma url_map_rules:
  "map (\<lambda>r. (rule r, methods r, endpoint r)) DBHandlerWrapper_init =
     [(''/'', [GET], Index), (''/connect'', [GET], Connect), (''/connect'', [GET], Disconnect),
      (''/check_connection'', [GET], CheckConnection), (''/get_tables'', [GET], GetTables),
      (''/get_columns'', [GET], GetColumns), (''/native_query'', [POST, PUT], NativeQuery),
      (''/query'', [GET], Query)]"
  by (simp add: DBHandlerWrapper_init_def BaseDBWrapper_init_def route_def)

text \<open>Claim C6. The rules of the path \<^verbatim>\<open>/connect\<close> are exactly two, both for GET: the one of
  \<^verbatim>\<open>connect\<close> and the one of \<^verbatim>\<open>disconnect\<close>. No rule has the path \<^verbatim>\<open>/disconnect\<close>. A GET
  request to \<^verbatim>\<open>/connect\<close> matches both rules and is dispatched to one endpoint, the first
  registered, \<^verbatim>\<open>connect\<close>.\<close>

theorem connect_disconnect_same_route:
  "map (\<lambda>r. (methods r, endpoint r)) (filter (\<lambda>r. rule r = ''/connect'') DBHandlerWrapper_init)
     = [([GET], Connect), ([GET], Disconnect)]
   \<and> filter (\<lambda>r. rule r = ''/disconnect'') DBHandlerWrapper_init = []
   \<and> matching DBHandlerWrapper_init GET ''/connect'' = [Connect, Disconnect]
   \<and> dispatch DBHandlerWrapper_init GET ''/connect'' = Some Connect"
  by (simp add: DBHandlerWrapper_init_def BaseDBWrapper_init_def route_def matching_def
      dispatch_def)

subsection \<open>Exceptions at the boundary of the dispatch layer\<close>

text \<open>Claim C1. The claim fails for \<^verbatim>\<open>native_query\<close>: when evaluating \<^verbatim>\<open>request.json\<close> raises,
  as it does for a body that is not JSON, the exception is raised by the statement before
  the \<^verbatim>\<open>try\<close> block and leaves the operation; no response with status 500 is built.\<close>

theorem native_query_propagates:
  "native_query env \<lparr>req_data = map of_char ''not json'', req_json = Inl bad_request\<rparr>
     = (Propagated bad_request, [RequestJson])"
  by (simp add: native_query_def unguarded_def then_do_def step_def)

subsection \<open>check\_connection\<close>



subsection \<open>Decoding failures of query\<close>




subsection \<open>Error responses of the query-shaped operations\<close>





subsection \<open>get\_columns without a table\<close>

text \<open>Claim C9. For a request whose JSON body is a dict without the key \<^verbatim>\<open>table\<close>,
  \<^verbatim>\<open>request.json.get("table")\<close> gives \<^verbatim>\<open>None\<close> and raises nothing; when the handler resolves,
  \<^verbatim>\<open>get_columns\<close> calls the handler's \<^verbatim>\<open>get_columns\<close> with \<^verbatim>\<open>None\<close> and answers with
  what the handler gives.\<close>

theorem get_columns_without_table:
  assumes "req_json req = Inr (JObj kvs)" and "map_of kvs ''table'' = None"
  shows "dict_get (JObj kvs) ''table'' = Inr JNull
       \<and> (\<forall>h t0. get_handler env (JObj kvs) = (Inr h, t0) \<longrightarrow>
            get_columns env req =
              (case h_get_columns h JNull of
                 Inr result \<Rightarrow> Returned (to_json result) 200
               | Inl e \<Rightarrow> Returned (to_json (error_response (format_exc env e))) 500,
               [RequestJson, DictGet ''table'', RequestJson] @ t0 @ [Invoke (CapGetColumns JNull)]))"
  using assms
  by (auto simp: get_columns_def try_except_def comp_defs dict_get_def split: sum.splits)

theorem get_columns_without_table_witness:
  "req_json stub_request = Inr (JObj [(''handler_type'', JStr ''stub''), (''handler_kwargs'', JObj [])])
   \<and> map_of [(''handler_type'', JStr ''stub''), (''handler_kwargs'', JObj [])] ''table'' = None
   \<and> get_columns stub_env stub_request =
       (Returned (to_json stub_table) 200,
        [RequestJson, DictGet ''table'', RequestJson, GetItem ''handler_type'',
         RegistryLookup (JStr ''stub''), GetItem ''handler_kwargs'', Construct (JObj []),
         Invoke (CapGetColumns JNull)])"
proof -
  have r: "req_json stub_request
      = Inr (JObj [(''handler_type'', JStr ''stub''), (''handler_kwargs'', JObj [])])"
    by (simp add: stub_request_def stub_descriptor_def)
  have m: "map_of [(''handler_type'', JStr ''stub''), (''handler_kwargs'', JObj [])] ''table'' = None"
    by simp
  have g: "h_get_columns stub_handler JNull = Inr stub_table"
    by (simp add: stub_handler_def)
  from get_columns_without_table [OF r m, of stub_env] get_handler_stub g
  have "get_columns stub_env stub_request =
       (Returned (to_json stub_table) 200,
        [RequestJson, DictGet ''table'', RequestJson, GetItem ''handler_type'',
         RegistryLookup (JStr ''stub''), GetItem ''handler_kwargs'', Construct (JObj []),
         Invoke (CapGetColumns JNull)])"
    by (simp add: stub_descriptor_def)
  with r m show ?thesis by simp
qed

subsection \<open>The order of the steps of query\<close>

lemma get_handler_trace:
  "\<exists>tag kw. prefix (snd (get_handler env j))
     [GetItem ''handler_type'', RegistryLookup tag, GetItem ''handler_kwargs'', Construct kw]"
  by (auto simp: get_handler_def comp_defs split: sum.splits)

lemma query_unfold:
  "query env req =
     (case decode_query env req of
        (Inl e, t) \<Rightarrow> (Returned (to_json (error_response (format_exc env e))) 500, GetData # t)
      | (Inr (j, q), t) \<Rightarrow>
          (case get_handler env j of
             (Inl e, t0) \<Rightarrow>
               (Returned (to_json (error_response (format_exc env e))) 500, GetData # t @ t0)
           | (Inr h, t0) \<Rightarrow>
               (case h_query h q of
                  Inl e \<Rightarrow> Returned (to_json (error_response (format_exc env e))) 500
                | Inr result \<Rightarrow> Returned (to_json result) 200,
                GetData # t @ t0 @ [Invoke (CapQuery q)])))"
  by (auto simp: query_def unguarded_def try_except_def comp_defs split: prod.splits sum.splits)

lemma decode_select_1:
  "decode_query stub_env select_1_request =
     (Inr (select_1_body, ''SELECT 1''),
      [GetData, JsonLoads, GetItem ''query'', EncodeUtf8, B64Decode, PickleLoads])"
  by code_simp

lemma get_handler_select_1:
  "get_handler stub_env select_1_body =
     (Inr stub_handler,
      [GetItem ''handler_type'', RegistryLookup (JStr ''stub''), GetItem ''handler_kwargs'',
       Construct (JObj [])])"
  by (simp add: get_handler_def comp_defs getitem_def kwargs_def handler_helpers_get_handler_def
      stub_env_def select_1_body_def encoded_body_def)

text \<open>Claim C7. The trace of \<^verbatim>\<open>query\<close> is always a beginning of the sequence: read the raw
  body (for the debug message, and again in the \<^verbatim>\<open>try\<close> block), parse it as JSON, read the
  \<^verbatim>\<open>query\<close> field, encode it, base64-decode it, unpickle the bytes, and only then resolve
  the handler from the same parsed JSON and call its \<^verbatim>\<open>query\<close> with the decoded object.
  Status 200 is returned exactly on the path where every step succeeds, with the handler's
  result as body.\<close>

theorem query_step_order:
  "(\<exists>tag kw q. prefix (snd (query env req)) (query_steps tag kw q))
   \<and> (\<forall>body. fst (query env req) = Returned body 200 \<longrightarrow>
        (\<exists>j qv b s q tag cls kvs h result.
            json_loads env (req_data req) = Inr j
          \<and> getitem j ''query'' = Inr qv
          \<and> encode_utf8 qv = Inr b
          \<and> b64decode b = Inr s
          \<and> pickle_loads env s = Inr q
          \<and> getitem j ''handler_type'' = Inr tag
          \<and> handler_helpers_get_handler env tag = Inr cls
          \<and> getitem j ''handler_kwargs'' = Inr (JObj kvs)
          \<and> cls kvs = Inr h
          \<and> h_query h q = Inr result
          \<and> body = to_json result
          \<and> snd (query env req) = query_steps tag (JObj kvs) q))
   \<and> (\<forall>j q t h t0 result. decode_query env req = (Inr (j, q), t)
          \<and> get_handler env j = (Inr h, t0) \<and> h_query h q = Inr result \<longrightarrow>
          fst (query env req) = Returned (to_json result) 200)"
proof -
  obtain r t where d: "decode_query env req = (r, t)" by (cases "decode_query env req")
  show ?thesis
  proof (cases r)
    case (Inl e)
    have "prefix t ([GetData, JsonLoads, GetItem ''query'', EncodeUtf8, B64Decode, PickleLoads]
            @ [GetItem ''handler_type'', RegistryLookup JNull, GetItem ''handler_kwargs'',
               Construct JNull, Invoke (CapQuery undefined)])"
      using decode_query_trace [of env req] d by (simp only: snd_conv prefix_prefix)
    then have "prefix (GetData # t) (query_steps JNull JNull undefined)"
      by (simp add: query_steps_def)
    with d Inl show ?thesis
      by (auto simp: query_unfold)
  next
    case (Inr jq)
    obtain j q where jq: "jq = (j, q)" by (cases jq)
    with d Inr have d': "decode_query env req = (Inr (j, q), t)" by simp
    then obtain qv b s where steps:
      "json_loads env (req_data req) = Inr j" "getitem j ''query'' = Inr qv"
      "encode_utf8 qv = Inr b" "b64decode b = Inr s" "pickle_loads env s = Inr q"
      and t: "t = [GetData, JsonLoads, GetItem ''query'', EncodeUtf8, B64Decode, PickleLoads]"
      unfolding decode_query_Inr_iff by blast
    obtain rh t0 where g: "get_handler env j = (rh, t0)" by (cases "get_handler env j")
    show ?thesis
    proof (cases rh)
      case (Inl e)
      from get_handler_trace [of env j] g obtain tag kw where
        "prefix t0 [GetItem ''handler_type'', RegistryLookup tag, GetItem ''handler_kwargs'',
           Construct kw]"
        by auto
      then have "prefix t0 ([GetItem ''handler_type'', RegistryLookup tag,
           GetItem ''handler_kwargs'', Construct kw] @ [Invoke (CapQuery q)])"
        by (rule prefix_prefix)
      then have "prefix (GetData # t @ t0) (query_steps tag kw q)"
        by (simp add: query_steps_def t)
      with d' g Inl show ?thesis
        by (auto simp: query_unfold)
    next
      case h: (Inr h)
      with g have "get_handler env j = (Inr h, t0)" by simp
      then obtain tag cls kvs where res:
        "getitem j ''handler_type'' = Inr tag" "handler_helpers_get_handler env tag = Inr cls"
        "getitem j ''handler_kwargs'' = Inr (JObj kvs)" "cls kvs = Inr h"
        and t0: "t0 = [GetItem ''handler_type'', RegistryLookup tag, GetItem ''handler_kwargs'',
               Construct (JObj kvs)]"
        unfolding get_handler_Inr_iff by blast
      have tr: "GetData # t @ t0 @ [Invoke (CapQuery q)] = query_steps tag (JObj kvs) q"
        by (simp add: query_steps_def t t0)
      show ?thesis
      proof (cases "h_query h q")
        case (Inl e)
        with d' g h tr show ?thesis
          by (auto simp: query_unfold)
      next
        case (Inr result)
        with d' g h tr steps res show ?thesis
          by (auto simp: query_unfold)
      qed
    qed
  qed
qed

theorem query_step_order_witness:
  "decode_query stub_env select_1_request =
     (Inr (select_1_body, ''SELECT 1''),
      [GetData, JsonLoads, GetItem ''query'', EncodeUtf8, B64Decode, PickleLoads])
   \<and> fst (get_handler stub_env select_1_body) = Inr stub_handler
   \<and> h_query stub_handler ''SELECT 1'' = Inr stub_table
   \<and> fst (query stub_env select_1_request) = Returned (to_json stub_table) 200
   \<and> snd (query stub_env select_1_request)
       = query_steps (JStr ''stub'') (JObj []) ''SELECT 1''"
proof -
  have tr: "snd (query stub_env select_1_request)
       = query_steps (JStr ''stub'') (JObj []) ''SELECT 1''"
    by (simp add: query_unfold decode_select_1 get_handler_select_1 query_steps_def)
  have h: "h_query stub_handler ''SELECT 1'' = Inr stub_table"
    by (simp add: stub_handler_def)
  from query_step_order [of stub_env select_1_request] decode_select_1 get_handler_select_1 h
  have "fst (query stub_env select_1_request) = Returned (to_json stub_table) 200"
    by blast
  with decode_select_1 get_handler_select_1 h tr show ?thesis by simp
qed

subsection \<open>The handler of a request\<close>


lemma decode_query_invoke_free: "Invoke c \<notin> set (snd (decode_query env req))"
  by (auto simp: decode_query_def comp_defs split: sum.splits)







subsection \<open>Unknown handler types\<close>












subsection \<open>Base64\<close>















subsection \<open>The round trip of the query transport codec\<close>










subsection \<open>The operations that catch every exception\<close>

text \<open>The six operations other than \<^verbatim>\<open>native_query\<close> run wholly inside \<^verbatim>\<open>try\<close> blocks:
  for every request they return a body with status 200 or 500. \<^verbatim>\<open>native_query\<close> does so
  when \<^verbatim>\<open>request.json\<close> is a dict.\<close>

lemma try_except_returns:
  assumes "\<And>e. snd (h e) = 500" and "\<And>b c t. m = (Inr (b, c), t) \<Longrightarrow> c = 200"
  shows "\<exists>body code. fst (try_except m h) = Returned body code \<and> (code = 200 \<or> code = 500)"
proof (cases m)
  case (Pair r t)
  show ?thesis
  proof (cases r)
    case (Inl e)
    with Pair assms(1) [of e] show ?thesis
      by (cases "h e") (simp add: try_except_def)
  next
    case (Inr bc)
    with Pair assms(2) show ?thesis
      by (cases bc) (simp add: try_except_def)
  qed
qed

lemma guarded_operations_return:
  assumes "f \<noteq> NativeQuery"
  shows "\<exists>body code. fst (view_function f env req) = Returned body code
           \<and> (code = 200 \<or> code = 500)"
proof (cases f)
  case Index
  then show ?thesis by (simp add: view_function_def index_def)
next
  case Connect
  then show ?thesis
    unfolding view_function_def connect_def
    by (simp, intro try_except_returns)
      (auto simp: status_fail_def status_ok_def comp_defs split: prod.splits sum.splits)
next
  case Disconnect
  then show ?thesis
    unfolding view_function_def disconnect_def
    by (simp, intro try_except_returns)
      (auto simp: status_fail_def status_ok_def comp_defs split: prod.splits sum.splits)
next
  case CheckConnection
  then show ?thesis
    unfolding view_function_def check_connection_def
    by (simp, intro try_except_returns)
      (auto simp: comp_defs split: prod.splits sum.splits)
next
  case GetTables
  then show ?thesis
    unfolding view_function_def get_tables_def
    by (simp, intro try_except_returns)
      (auto simp: comp_defs split: prod.splits sum.splits)
next
  case GetColumns
  then show ?thesis
    unfolding view_function_def get_columns_def
    by (simp, intro try_except_returns)
      (auto simp: comp_defs split: prod.splits sum.splits)
next
  case NativeQuery
  with assms show ?thesis by simp
next
  case Query
  then show ?thesis
    by (auto simp: view_function_def query_unfold split: prod.splits sum.splits)
qed

lemma then_do_simps:
  "then_do (Inl e, t) f = (Inl e, t)"
  "then_do (Inr a, t) f = (case f a of (r, t') \<Rightarrow> (r, t @ t'))"
  by (simp_all add: then_do_def)

lemma native_query_returns_for_dict:
  assumes "req_json req = Inr (JObj kvs)"
  shows "\<exists>body code. fst (native_query env req) = Returned body code
           \<and> (code = 200 \<or> code = 500)"
proof -
  obtain v where v: "dict_get (JObj kvs) ''query'' = Inr v"
    by (cases "map_of kvs ''query''") (simp_all add: dict_get_def)
  let ?m = "then_do (step RequestJson (req_json req)) (\<lambda>j.
             then_do (get_handler env j) (\<lambda>handler.
             then_do (step (Invoke (CapNativeQuery v)) (h_native_query handler v)) (\<lambda>result.
             ret (to_json result, 200))))"
  let ?h = "\<lambda>e. (to_json (error_response (format_exc env e)), 500::nat)"
  have "fst (native_query env req) = fst (try_except ?m ?h)"
    using assms v
    by (simp add: native_query_def unguarded_def then_do_simps step_def split: prod.splits)
  moreover have "\<exists>body code. fst (try_except ?m ?h) = Returned body code
      \<and> (code = 200 \<or> code = 500)"
    by (intro try_except_returns)
      (auto simp: comp_defs split: prod.splits sum.splits)
  ultimately show ?thesis by simp
qed

end
